theory Spec2Isabelle
  imports Main "HOL-Library.Word" "HOL-Library.Sublist"
begin

unbundle bit_operations_syntax

section \<open>ASDU: the data unit identifier and its codec\<close>

text \<open>
  The Go types of the ASDU header: \<open>TypeID\<close>, \<open>COT\<close> and \<open>ORG\<close> are \<open>uint8\<close>,
  \<open>NOO\<close> is an alias of \<open>uint8\<close>, \<open>COA\<close> an alias of \<open>uint16\<close>, and \<open>SQ\<close>, \<open>T\<close>, \<open>PN\<close>
  are \<open>bool\<close>. The types \<open>InformationObject\<close>, \<open>InformationElement\<close> and \<open>cmdRsp\<close> are
  declared elsewhere in the package; the codec only stores and forwards references to
  them, so the record takes the types of these references as the parameters \<open>'io\<close>,
  \<open>'ie\<close> and \<open>'rsp\<close>.
\<close>

type_synonym byte = "8 word"
type_synonym TypeID = "8 word"
type_synonym SQ = bool
type_synonym NOO = "8 word"
type_synonym T = bool
type_synonym PN = bool
type_synonym COT = "8 word"
type_synonym ORG = "8 word"
type_synonym COA = "16 word"

record ('io, 'ie, 'rsp) ASDU =
  typeID :: TypeID
  sq :: SQ
  nObjs :: NOO
  t :: T
  pn :: PN
  cot :: COT
  org :: ORG
  coa :: COA
  toBeHandled :: bool
  sendSFrame :: bool
  cmdRsp :: "'rsp option"
  ios :: "'io list"
  Signals :: "'ie list"

text \<open>The only error \<open>Parse\<close> builds: \<open>fmt.Errorf("invalid asdu header: % X", data)\<close>.\<close>

datatype error = InvalidAsduHeader "byte list"

text \<open>
  Modelled from the spec: the constant \<open>AsduHeaderLen\<close> is used by \<open>Parse\<close> and declared
  elsewhere in the package; the data unit identifier has \<^emph>\<open>the fixed length of six bytes\<close>.
\<close>

definition AsduHeaderLen :: nat where
  "AsduHeaderLen = 6"

subsection \<open>The field parsers\<close>

text \<open>
  Each parser stores the field in the receiver and returns it; \<open>Parse\<close> drops the returned
  value, so the model returns the updated receiver.
\<close>

definition parseTypeID :: "('io, 'ie, 'rsp) ASDU \<Rightarrow> byte \<Rightarrow> ('io, 'ie, 'rsp) ASDU" where
  "parseTypeID asdu data = asdu\<lparr>typeID := data\<rparr>"

definition parseSQ :: "('io, 'ie, 'rsp) ASDU \<Rightarrow> byte \<Rightarrow> ('io, 'ie, 'rsp) ASDU" where
  "parseSQ asdu data = asdu\<lparr>sq := (data AND push_bit 7 1 = push_bit 7 1)\<rparr>"

definition parseNOO :: "('io, 'ie, 'rsp) ASDU \<Rightarrow> byte \<Rightarrow> ('io, 'ie, 'rsp) ASDU" where
  "parseNOO asdu data = asdu\<lparr>nObjs := data AND 0x7F\<rparr>"

definition parseT :: "('io, 'ie, 'rsp) ASDU \<Rightarrow> byte \<Rightarrow> ('io, 'ie, 'rsp) ASDU" where
  "parseT asdu data = asdu\<lparr>t := (data AND push_bit 7 1 = push_bit 7 1)\<rparr>"

definition parsePN :: "('io, 'ie, 'rsp) ASDU \<Rightarrow> byte \<Rightarrow> ('io, 'ie, 'rsp) ASDU" where
  "parsePN asdu data = asdu\<lparr>pn := (data AND push_bit 6 1 = push_bit 6 1)\<rparr>"

definition parseCOT :: "('io, 'ie, 'rsp) ASDU \<Rightarrow> byte \<Rightarrow> ('io, 'ie, 'rsp) ASDU" where
  "parseCOT asdu data = asdu\<lparr>cot := data AND 0x3F\<rparr>"

definition parseORG :: "('io, 'ie, 'rsp) ASDU \<Rightarrow> byte \<Rightarrow> ('io, 'ie, 'rsp) ASDU" where
  "parseORG asdu data = asdu\<lparr>org := data\<rparr>"

text \<open>\<open>binary.LittleEndian.Uint16\<close> of the first two bytes of the slice.\<close>

definition parseCOA :: "('io, 'ie, 'rsp) ASDU \<Rightarrow> byte list \<Rightarrow> ('io, 'ie, 'rsp) ASDU" where
  "parseCOA asdu data = asdu\<lparr>coa := ucast (data ! 0) OR push_bit 8 (ucast (data ! 1))\<rparr>"

subsection \<open>Parse\<close>

text \<open>
  \<open>Parse\<close> returns an \<open>error\<close> and fills the receiver. The method
  \<open>parseInformationObjects\<close> is declared elsewhere in the package: it is a parameter, a function
  from the receiver (as the header parsers left it) and the bytes after the header to the
  receiver it leaves, or \<open>None\<close> when it panics. It returns nothing to \<open>Parse\<close>, which
  returns \<open>nil\<close> after it.
\<close>

datatype 'a parse_result = ParseErr error | ParseOk 'a | ParsePanic

definition Parse ::
  "(('io, 'ie, 'rsp) ASDU \<Rightarrow> byte list \<Rightarrow> ('io, 'ie, 'rsp) ASDU option) \<Rightarrow>
   ('io, 'ie, 'rsp) ASDU \<Rightarrow> byte list \<Rightarrow> ('io, 'ie, 'rsp) ASDU parse_result" where
  "Parse parseInformationObjects asdu data =
     (if length data < AsduHeaderLen then ParseErr (InvalidAsduHeader data)
      else
        let a1 = parseTypeID asdu (data ! 0);
            a2 = parseSQ a1 (data ! 1);
            a3 = parseNOO a2 (data ! 1);
            a4 = parseT a3 (data ! 2);
            a5 = parsePN a4 (data ! 2);
            a6 = parseCOT a5 (data ! 2);
            a7 = parseORG a6 (data ! 3);
            a8 = parseCOA a7 (take (AsduHeaderLen - 4) (drop 4 data))
        in case parseInformationObjects a8 (drop AsduHeaderLen data) of
             None \<Rightarrow> ParsePanic
           | Some a \<Rightarrow> ParseOk a)"

subsection \<open>Data\<close>

text \<open>
  \<open>Data\<close> appends the six header bytes and then the bytes of every information object.
  \<open>InformationObject.Data\<close> is declared elsewhere in the package and is a parameter. The
  untyped constants \<open>0b1 << 7\<close>, \<open>0b11 << 6\<close> and \<open>0b1 << 6\<close> take the type \<open>uint8\<close>
  of the other operand of \<open>&\<close>.
\<close>

primrec iosData :: "('io \<Rightarrow> byte list) \<Rightarrow> 'io list \<Rightarrow> byte list \<Rightarrow> byte list" where
  "iosData ioData [] x = x"
| "iosData ioData (signal # rest) x = iosData ioData rest (x @ ioData signal)"

definition Data :: "('io \<Rightarrow> byte list) \<Rightarrow> ('io, 'ie, 'rsp) ASDU \<Rightarrow> byte list" where
  "Data ioData asdu =
     [typeID asdu]
     @ [if sq asdu then push_bit 7 1 AND nObjs asdu else nObjs asdu]
     @ [if t asdu \<and> pn asdu then push_bit 6 3 AND cot asdu
        else if t asdu then push_bit 7 1 AND cot asdu
        else if pn asdu then push_bit 6 1 AND cot asdu
        else cot asdu]
     @ [org asdu]
     @ [ucast (coa asdu), ucast (drop_bit 8 (coa asdu))]
     @ iosData ioData (ios asdu) []"

subsection \<open>What the helper may touch\<close>

text \<open>
  \<open>parseInformationObjects\<close> fills the information objects of the receiver. A helper
  keeps the header when the eight header fields of the receiver it leaves are the ones it
  was given.
\<close>

definition keeps_header ::
  "(('io, 'ie, 'rsp) ASDU \<Rightarrow> byte list \<Rightarrow> ('io, 'ie, 'rsp) ASDU option) \<Rightarrow> bool" where
  "keeps_header p \<longleftrightarrow>
     (\<forall>a bs a'. p a bs = Some a' \<longrightarrow>
        typeID a' = typeID a \<and> sq a' = sq a \<and> nObjs a' = nObjs a \<and> t a' = t a \<and>
        pn a' = pn a \<and> cot a' = cot a \<and> org a' = org a \<and> coa a' = coa a)"

subsection \<open>Values for the examples\<close>

text \<open>
  The zero value \<open>ASDU{}\<close>, the receiver of a fresh \<open>Parse\<close>; an instance of the two
  parameters in which an information object is held as its own bytes and the helper
  returns without touching the receiver; and three ASDUs of type \<open>MSpNa1\<close> (1) with cause
  \<open>CotSpont\<close> (3) and one object at address 1 with value 1: one with \<open>sq\<close> set, one with
  \<open>t\<close> set, one with a cause of 100.
\<close>

definition zeroASDU :: "(byte list, unit, unit) ASDU" where
  "zeroASDU = \<lparr>typeID = 0, sq = False, nObjs = 0, t = False, pn = False, cot = 0, org = 0,
     coa = 0, toBeHandled = False, sendSFrame = False, cmdRsp = None, ios = [],
     Signals = []\<rparr>"

definition rawData :: "byte list \<Rightarrow> byte list" where
  "rawData signal = signal"

definition skipObjects ::
  "(byte list, unit, unit) ASDU \<Rightarrow> byte list \<Rightarrow> (byte list, unit, unit) ASDU option" where
  "skipObjects asdu data = Some asdu"

definition spontSeq :: "(byte list, unit, unit) ASDU" where
  "spontSeq = \<lparr>typeID = 1, sq = True, nObjs = 1, t = False, pn = False, cot = 3, org = 0,
     coa = 1, toBeHandled = False, sendSFrame = False, cmdRsp = None,
     ios = [[1, 0, 0, 1]], Signals = []\<rparr>"

definition spontTest :: "(byte list, unit, unit) ASDU" where
  "spontTest = \<lparr>typeID = 1, sq = False, nObjs = 1, t = True, pn = False, cot = 3, org = 0,
     coa = 1, toBeHandled = False, sendSFrame = False, cmdRsp = None,
     ios = [[1, 0, 0, 1]], Signals = []\<rparr>"

definition cause100 :: "(byte list, unit, unit) ASDU" where
  "cause100 = \<lparr>typeID = 1, sq = False, nObjs = 1, t = False, pn = False, cot = 100, org = 0,
     coa = 1, toBeHandled = False, sendSFrame = False, cmdRsp = None,
     ios = [[1, 0, 0, 1]], Signals = []\<rparr>"

section \<open>Client options\<close>

text \<open>
  \<open>time.Duration\<close> is an \<open>int64\<close> count of nanoseconds and \<open>retries\<close> an \<open>int\<close>; the
  options only store them and compare them with 0, so both are integers here.
\<close>

type_synonym Duration = int

definition Second :: Duration where
  "Second = 1000000000"

definition DefaultReconnectRetries :: int where
  "DefaultReconnectRetries = 1"

definition DefaultReconnectInterval :: Duration where
  "DefaultReconnectInterval = 3 * Second"

record AutoReconnectRule =
  retries :: int
  interval :: Duration

text \<open>
  A value of the function types \<open>OnConnectHandler\<close> and \<open>OnDisconnectHandler\<close> is
  \<open>nil\<close> (\<open>None\<close>), one of the two closures \<open>NewClientOption\<close> installs (the first sends
  STARTDT and waits for the reply, the second sends STOPDT and waits), or a function of
  the caller's, of type \<open>'f\<close>.
\<close>

datatype 'f hook = StartDT | StopDT | UserFunc 'f

text \<open>
  \<open>'url\<close> stands for \<open>*url.URL\<close>, \<open>'h\<close> for the interface \<open>ClientHandler\<close> and \<open>'tls\<close>
  for \<open>tls.Config\<close>; a pointer that the code sets to \<open>nil\<close> is an \<open>option\<close>.
\<close>

record ('url, 'f, 'h, 'tls) ClientOption =
  server :: 'url
  connectTimeout :: Duration
  autoReconnectRule :: "AutoReconnectRule option"
  onConnectHandler :: "'f hook option"
  onDisconnectHandler :: "'f hook option"
  handler :: 'h
  tc :: "'tls option"

text \<open>\<open>strings.Contains s substr\<close>: \<open>substr\<close> occurs in \<open>s\<close> at some position.\<close>

fun Contains :: "string \<Rightarrow> string \<Rightarrow> bool" where
  "Contains [] substr = (substr = [])"
| "Contains (c # s) substr = (prefix substr (c # s) \<or> Contains s substr)"

text \<open>
  \<open>url.Parse\<close> belongs to the Go library and is the parameter \<open>urlParse\<close>, returning the
  URL or the error. The line that \<open>fmt.Println\<close> writes is the address handed to
  \<open>url.Parse\<close>; it is not part of the result.
\<close>

definition NewClientOption ::
  "(string \<Rightarrow> 'e + 'url) \<Rightarrow> string \<Rightarrow> 'h \<Rightarrow> Duration \<Rightarrow> 'e + ('url, 'f, 'h, 'tls) ClientOption" where
  "NewClientOption urlParse server0 handler0 connecttimeout =
     (let server1 = (if length server0 > 0 \<and> server0 ! 0 = CHR '':''
                     then ''127.0.0.1'' @ server0 else server0);
          server2 = (if \<not> Contains server1 ''://'' then ''tcp://'' @ server1 else server1)
      in case urlParse server2 of
           Inl err \<Rightarrow> Inl err
         | Inr remoteURL \<Rightarrow>
             Inr \<lparr>server = remoteURL,
                  connectTimeout = connecttimeout,
                  autoReconnectRule = Some \<lparr>retries = DefaultReconnectRetries,
                                             interval = DefaultReconnectInterval\<rparr>,
                  onConnectHandler = Some StartDT,
                  onDisconnectHandler = Some StopDT,
                  handler = handler0,
                  tc = None\<rparr>)"

text \<open>
  The setters change the option behind the receiver and return the receiver; the model
  returns the changed option. \<open>SetAutoReconnectRule\<close> also writes the defaults into the
  caller's rule before it installs the reference to it.
\<close>

definition SetConnectTimeout ::
  "('url, 'f, 'h, 'tls) ClientOption \<Rightarrow> Duration \<Rightarrow> ('url, 'f, 'h, 'tls) ClientOption" where
  "SetConnectTimeout opt timeout =
     (if timeout > 0 then opt\<lparr>connectTimeout := timeout\<rparr> else opt)"

definition SetAutoReconnectRule ::
  "('url, 'f, 'h, 'tls) ClientOption \<Rightarrow> AutoReconnectRule option \<Rightarrow>
   ('url, 'f, 'h, 'tls) ClientOption" where
  "SetAutoReconnectRule opt rule =
     (case rule of
        None \<Rightarrow> opt
      | Some r \<Rightarrow>
          let r1 = (if retries r < 0 then r\<lparr>retries := DefaultReconnectRetries\<rparr> else r);
              r2 = (if interval r1 < 0 then r1\<lparr>interval := DefaultReconnectInterval\<rparr> else r1)
          in opt\<lparr>autoReconnectRule := Some r2\<rparr>)"

definition SetTLS ::
  "('url, 'f, 'h, 'tls) ClientOption \<Rightarrow> 'tls option \<Rightarrow> ('url, 'f, 'h, 'tls) ClientOption" where
  "SetTLS opt tc0 = opt\<lparr>tc := tc0\<rparr>"

definition SetOnConnectHandler ::
  "('url, 'f, 'h, 'tls) ClientOption \<Rightarrow> 'f hook option \<Rightarrow> ('url, 'f, 'h, 'tls) ClientOption" where
  "SetOnConnectHandler opt handler0 =
     (if handler0 \<noteq> None then opt\<lparr>onConnectHandler := handler0\<rparr> else opt)"

definition SetOnDisconnectHandler ::
  "('url, 'f, 'h, 'tls) ClientOption \<Rightarrow> 'f hook option \<Rightarrow> ('url, 'f, 'h, 'tls) ClientOption" where
  "SetOnDisconnectHandler opt handler0 =
     (if handler0 \<noteq> None then opt\<lparr>onDisconnectHandler := handler0\<rparr> else opt)"

subsection \<open>The address handed to the URL parser, in the words of the specification\<close>

text \<open>
  An address that starts with a colon gets the host \<open>127.0.0.1\<close> in front, and an address
  in which no \<open>://\<close> occurs gets the scheme \<open>tcp://\<close> in front.
\<close>

definition normalized_address :: "string \<Rightarrow> string" where
  "normalized_address a =
     (let b = (if prefix '':'' a then ''127.0.0.1'' @ a else a)
      in if sublist ''://'' b then b else ''tcp://'' @ b)"

subsection \<open>Values for the examples\<close>

text \<open>
  A URL parser that rejects an address with a space in it and accepts every other one,
  and two options as \<open>NewClientOption\<close> builds them, with a connect timeout of minus five
  and of seven seconds.
\<close>

definition sampleParse :: "string \<Rightarrow> string + string" where
  "sampleParse s =
     (if CHR '' '' \<in> set s then Inl ''invalid character in host name'' else Inr s)"

definition optMinus5 :: "(string, unit, unit, unit) ClientOption" where
  "optMinus5 = \<lparr>server = ''tcp://127.0.0.1:2404'', connectTimeout = - 5 * Second,
     autoReconnectRule = Some \<lparr>retries = 1, interval = 3 * Second\<rparr>,
     onConnectHandler = Some StartDT, onDisconnectHandler = Some StopDT, handler = (),
     tc = None\<rparr>"

definition opt7 :: "(string, unit, unit, unit) ClientOption" where
  "opt7 = optMinus5\<lparr>connectTimeout := 7 * Second\<rparr>"

section \<open>Server: the accept loop\<close>

text \<open>
  \<open>Serve\<close> returns the error of \<open>listen\<close>, if any, and otherwise loops for ever on
  \<open>Accept\<close>. The results of \<open>listen\<close> and of the successive calls of \<open>Accept\<close> come from
  the network and are given: \<open>listen_result\<close> is the error of \<open>listen\<close> (\<open>None\<close> for
  \<open>nil\<close>), and each element of \<open>accepts\<close> is the pair \<open>(conn, err)\<close> of one call, \<open>None\<close>
  for a \<open>nil\<close> interface value. The loop records what it does: an \<open>Errorf\<close> line built from
  \<open>conn.RemoteAddr()\<close>, or a goroutine started on the connection. Calling \<open>RemoteAddr\<close>
  on the \<open>nil\<close> interface value panics. After the given results the loop is still
  waiting in \<open>Accept\<close>: \<open>ServeAccepting\<close>.
\<close>

datatype 'c event = Errorf 'c | Go_serve "'c option"

datatype ('c, 'e) serve_result =
  ServeReturned 'e | ServeAccepting "'c event list" | ServePanic "'c event list"

fun acceptLoop :: "('c option \<times> 'e option) list \<Rightarrow> 'c event list \<Rightarrow> ('c, 'e) serve_result" where
  "acceptLoop [] evs = ServeAccepting evs"
| "acceptLoop ((conn, err) # rest) evs =
     (if err \<noteq> None then
        (case conn of
           None \<Rightarrow> ServePanic evs
         | Some c \<Rightarrow> acceptLoop rest (evs @ [Errorf c]))
      else acceptLoop rest (evs @ [Go_serve conn]))"

definition Serve :: "'e option \<Rightarrow> ('c option \<times> 'e option) list \<Rightarrow> ('c, 'e) serve_result" where
  "Serve listen_result accepts =
     (case listen_result of
        Some err \<Rightarrow> ServeReturned err
      | None \<Rightarrow> acceptLoop accepts [])"

section \<open>Properties of the ASDU codec\<close>

subsection \<open>Bit tests and masks on a byte\<close>

lemma bit_test: "((x::byte) AND push_bit n 1 = push_bit n 1) = bit x n" if "n < 8"
proof
  assume "x AND push_bit n 1 = push_bit n 1"
  then have "bit (x AND push_bit n 1) n = bit (push_bit n (1::byte)) n"
    by (simp only:)
  then show "bit x n"
    using that by (simp only: bit_and_iff bit_push_bit_iff) (simp add: bit_simps)
next
  assume "bit x n"
  show "x AND push_bit n 1 = push_bit n 1"
  proof (rule bit_eqI)
    fix k
    show "bit (x AND push_bit n 1) k = bit (push_bit n (1::byte)) k"
      using \<open>bit x n\<close> by (auto simp only: bit_and_iff bit_push_bit_iff bit_1_iff) simp
  qed
qed

lemma low7_le: "unat ((x::byte) AND 0x7F) \<le> 127"
  using word_and_le1 [of x "0x7F", THEN word_le_nat_alt [THEN iffD1]] by simp

lemma low6_le: "unat ((x::byte) AND 0x3F) \<le> 63"
  using word_and_le1 [of x "0x3F", THEN word_le_nat_alt [THEN iffD1]] by simp

subsection \<open>The bytes of \<open>Data\<close> and the header \<open>Parse\<close> reads\<close>

lemma iosData_concat: "iosData ioData xs x = x @ concat (map ioData xs)"
  by (induction xs arbitrary: x) simp_all

lemma Data_Cons:
  "Data ioData a =
     typeID a
     # (if sq a then push_bit 7 1 AND nObjs a else nObjs a)
     # (if t a \<and> pn a then push_bit 6 3 AND cot a
        else if t a then push_bit 7 1 AND cot a
        else if pn a then push_bit 6 1 AND cot a
        else cot a)
     # org a # ucast (coa a) # ucast (drop_bit 8 (coa a)) # concat (map ioData (ios a))"
  by (simp add: Data_def iosData_concat)

lemma Data_nth:
  "Data ioData a ! 1 = (if sq a then push_bit 7 1 AND nObjs a else nObjs a)"
  "Data ioData a ! 2 =
     (if t a \<and> pn a then push_bit 6 3 AND cot a
      else if t a then push_bit 7 1 AND cot a
      else if pn a then push_bit 6 1 AND cot a
      else cot a)"
  by (simp_all only: Data_Cons nth_Cons_Suc nth_Cons_0 One_nat_def numeral_2_eq_2)

lemma length_Data: "length (Data ioData a) = 6 + length (concat (map ioData (ios a)))"
  by (simp add: Data_Cons)

lemma Data_payload: "drop 6 (Data ioData a) = concat (map ioData (ios a))"
  by (simp add: Data_Cons)

lemma Data_fixed_bytes:
  "Data ioData a ! 0 = typeID a" "Data ioData a ! 3 = org a"
  "Data ioData a ! 4 = ucast (coa a)" "Data ioData a ! 5 = ucast (drop_bit 8 (coa a))"
  by (simp_all add: Data_Cons numeral_nat)

lemma keeps_header_skipObjects: "keeps_header skipObjects"
  by (simp add: keeps_header_def skipObjects_def)

lemma Parse_ok_header:
  assumes "Parse pio asdu data = ParseOk a" and "keeps_header pio"
  shows "AsduHeaderLen \<le> length data"
    and "typeID a = data ! 0"
    and "sq a = (data ! 1 AND push_bit 7 1 = push_bit 7 1)"
    and "nObjs a = data ! 1 AND 0x7F"
    and "t a = (data ! 2 AND push_bit 7 1 = push_bit 7 1)"
    and "pn a = (data ! 2 AND push_bit 6 1 = push_bit 6 1)"
    and "cot a = data ! 2 AND 0x3F"
    and "org a = data ! 3"
  using assms
  by (auto simp: Parse_def keeps_header_def Let_def parseTypeID_def parseSQ_def parseNOO_def
      parseT_def parsePN_def parseCOT_def parseORG_def parseCOA_def
      split: if_splits option.splits)

subsection \<open>A flag bit masked with a field\<close>

lemma push_bit_and_mask: "push_bit n (1::byte) AND (x AND mask n) = 0"
  by (rule bit_eqI) (auto simp only: bit_and_iff bit_push_bit_iff bit_mask_iff bit_1_iff bit_0_eq)

lemma flag_and_low7: "(push_bit 7 1 AND (n::byte)) AND 0x7F = 0"
  using push_bit_and_mask [of 7 n] by (simp add: and.assoc mask_numeral)

lemma flag_and_low6: "(push_bit 6 1 AND (n::byte)) AND 0x3F = 0"
  using push_bit_and_mask [of 6 n] by (simp add: and.assoc mask_numeral)

lemma flag7_and_low6: "(push_bit 7 1 AND (n::byte)) AND 0x3F = 0"
proof -
  have "(0x3F::byte) = 0x3F AND 0x7F" by simp
  then have "(push_bit 7 1 AND n) AND 0x3F = ((push_bit 7 1 AND n) AND 0x7F) AND 0x3F"
    by (metis and.assoc and.commute)
  then show ?thesis by (simp only: flag_and_low7) simp
qed

lemma flags_and_low6: "(push_bit 6 3 AND (n::byte)) AND 0x3F = 0"
proof -
  have "push_bit 6 (3::byte) = push_bit 6 1 OR push_bit 7 1" by simp
  then have "(push_bit 6 3 AND n) AND 0x3F
      = ((push_bit 6 1 AND n) AND 0x3F) OR ((push_bit 7 1 AND n) AND 0x3F)"
    by (simp only: bit.conj_disj_distrib2)
  then show ?thesis by (simp only: flag_and_low6 flag7_and_low6) simp
qed

lemma flag_and_small7: "unat (n::byte) \<le> 127 \<Longrightarrow> push_bit 7 1 AND n = 0"
proof -
  assume "unat n \<le> 127"
  then have "n < 2 ^ 7" by (simp add: word_less_nat_alt)
  then have "n AND mask 7 = n" by (rule less_mask_eq)
  then have "push_bit 7 1 AND n = push_bit 7 1 AND (n AND mask 7)" by simp
  then show ?thesis by (simp only: push_bit_and_mask)
qed

lemma small6_mask: "unat (n::byte) \<le> 63 \<Longrightarrow> n AND 0x3F = n"
proof -
  assume "unat n \<le> 63"
  then have "n < 2 ^ 6" by (simp add: word_less_nat_alt)
  then have "n AND mask 6 = n" by (rule less_mask_eq)
  then show ?thesis by (simp add: mask_numeral)
qed

lemma flags_and_small6:
  assumes "unat (n::byte) \<le> 63"
  shows "push_bit 6 3 AND n = 0" and "push_bit 7 1 AND n = 0" and "push_bit 6 1 AND n = 0"
proof -
  have n: "n = n AND 0x3F" using assms by (simp only: small6_mask)
  have "push_bit 6 3 AND n = (push_bit 6 3 AND n) AND 0x3F"
    by (subst n) (simp only: and.assoc)
  then show "push_bit 6 3 AND n = 0" by (simp only: flags_and_low6)
  have "push_bit 7 1 AND n = (push_bit 7 1 AND n) AND 0x3F"
    by (subst n) (simp only: and.assoc)
  then show "push_bit 7 1 AND n = 0" by (simp only: flag7_and_low6)
  have "push_bit 6 1 AND n = (push_bit 6 1 AND n) AND 0x3F"
    by (subst n) (simp only: and.assoc)
  then show "push_bit 6 1 AND n = 0" by (simp only: flag_and_low6)
qed

lemma small7_mask: "unat (n::byte) \<le> 127 \<Longrightarrow> n AND 0x7F = n"
proof -
  assume "unat n \<le> 127"
  then have "n < 2 ^ 7" by (simp add: word_less_nat_alt)
  then have "n AND mask 7 = n" by (rule less_mask_eq)
  then show ?thesis by (simp add: mask_numeral)
qed

lemma small_no_flag:
  "unat (n::byte) \<le> 127 \<Longrightarrow> n AND 128 \<noteq> 128"
  "unat (n::byte) \<le> 63 \<Longrightarrow> n AND 128 \<noteq> 128"
  "unat (n::byte) \<le> 63 \<Longrightarrow> n AND 64 \<noteq> 64"
  using flag_and_small7 [of n] flags_and_small6 [of n]
  by (simp_all add: and.commute)

subsection \<open>The two address bytes\<close>

lemma coa_bytes: "ucast (ucast (w::COA) :: byte) OR push_bit 8 (ucast (ucast (drop_bit 8 w) :: byte)) = w"
  by (rule bit_eqI) (auto simp add: bit_simps)

subsection \<open>Round trip\<close>

text \<open>
  With no flag set and the count and the cause in range, the header does come back: parsing
  the bytes of an ASDU into that ASDU, with a helper that returns at once, leaves it as it
  was.
\<close>

lemma roundtrip_header_without_flags:
  assumes "\<not> sq a" and "\<not> t a" and "\<not> pn a"
    and "unat (nObjs a) \<le> 127" and "unat (cot a) \<le> 63"
  shows "Parse (\<lambda>h bs. Some h) a (Data ioData a) = ParseOk a"
  using assms
  by (simp add: Parse_def AsduHeaderLen_def length_Data Data_Cons Let_def parseTypeID_def
      parseSQ_def parseNOO_def parseT_def parsePN_def parseCOT_def parseORG_def parseCOA_def
      small7_mask small6_mask small_no_flag coa_bytes)

lemma roundtrip_count_zero:
  assumes "Parse pio asdu (Data ioData a) = ParseOk a" and "keeps_header pio" and "sq a"
  shows "nObjs a = 0"
proof -
  have "nObjs a = Data ioData a ! 1 AND 0x7F"
    using assms(1,2) by (rule Parse_ok_header)
  also have "\<dots> = (push_bit 7 1 AND nObjs a) AND 0x7F"
    using \<open>sq a\<close> by (simp only: Data_nth if_True)
  finally show ?thesis by (simp only: flag_and_low7)
qed

lemma roundtrip_cause_zero:
  assumes "Parse pio asdu (Data ioData a) = ParseOk a" and "keeps_header pio"
    and "t a \<or> pn a"
  shows "cot a = 0"
proof -
  have "cot a = Data ioData a ! 2 AND 0x3F"
    using assms(1,2) by (rule Parse_ok_header)
  then show ?thesis
    using \<open>t a \<or> pn a\<close>
    by (auto simp only: Data_nth flag_and_low6 flag7_and_low6 flags_and_low6 split: if_splits)
qed

text \<open>
  C1. The claim: decoding the bytes that encoding produces gives back the ASDU, and its
  \<open>sq\<close>, \<open>test\<close> and \<open>positiveNegative\<close> flags survive. The code does not do this:
  \<open>Data\<close> combines each flag bit with its field by \<open>&\<close>, so the flag is never written, and
  whenever one of the three flags is set the ASDU that \<open>Parse\<close> reads from \<open>Data\<close>'s
  bytes differs from the one encoded, for every helper that keeps the header.
\<close>

theorem C1_roundtrip_loses_flags:
  assumes "sq a \<or> t a \<or> pn a" and "keeps_header pio"
  shows "Parse pio asdu (Data ioData a) \<noteq> ParseOk a"
proof
  assume ok: "Parse pio asdu (Data ioData a) = ParseOk a"
  from assms(1) consider "sq a" | "t a \<or> pn a" by blast
  then show False
  proof cases
    case 1
    then have "nObjs a = 0" using ok assms(2) by (simp only: roundtrip_count_zero)
    moreover have "Data ioData a ! 1 = push_bit 7 1 AND nObjs a"
      using 1 by (simp only: Data_nth if_True)
    ultimately have "Data ioData a ! 1 = 0" by simp
    moreover have "sq a = (Data ioData a ! 1 AND push_bit 7 1 = push_bit 7 1)"
      using ok assms(2) by (rule Parse_ok_header)
    ultimately show False using 1 by simp
  next
    case 2
    then have "cot a = 0" using ok assms(2) by (simp only: roundtrip_cause_zero)
    then have z: "Data ioData a ! 2 = 0" by (simp only: Data_nth) simp
    have "t a = (Data ioData a ! 2 AND push_bit 7 1 = push_bit 7 1)"
      and "pn a = (Data ioData a ! 2 AND push_bit 6 1 = push_bit 6 1)"
      using ok assms(2) by (rule Parse_ok_header)+
    then show False using 2 z by simp
  qed
qed

theorem C1_roundtrip_loses_flags_witness:
  "(sq spontSeq \<or> t spontSeq \<or> pn spontSeq) \<and> keeps_header skipObjects \<and>
   unat (nObjs spontSeq) \<le> 127 \<and> unat (cot spontSeq) \<le> 63 \<and>
   Parse skipObjects zeroASDU (Data rawData spontSeq) \<noteq> ParseOk spontSeq"
  using C1_roundtrip_loses_flags [of spontSeq skipObjects zeroASDU rawData]
  by (simp add: keeps_header_skipObjects spontSeq_def)

subsection \<open>Packing of the second and third header byte\<close>

text \<open>
  C2. The claim: the encoder ORs the SQ bit into bit 7 of the second header byte, next to
  the 7-bit count, and the T and P/N bits into bits 7 and 6 of the third, next to the 6-bit
  cause. The code masks instead: with the count and the cause in range, the second byte is
  0 whenever \<open>sq\<close> is set and the third byte is 0 whenever \<open>t\<close> or \<open>pn\<close> is set, and
  neither is the OR of the flag bits with the field.
\<close>

theorem C2_flag_bits_not_packed:
  assumes "unat (nObjs a) \<le> 127" and "unat (cot a) \<le> 63"
  shows "(sq a \<longrightarrow> Data ioData a ! 1 = 0 \<and> Data ioData a ! 1 \<noteq> 0x80 OR nObjs a) \<and>
         (t a \<or> pn a \<longrightarrow>
            Data ioData a ! 2 = 0 \<and>
            Data ioData a ! 2 \<noteq> (if t a then 0x80 else 0) OR (if pn a then 0x40 else 0) OR cot a)"
proof -
  have b2: "sq a \<Longrightarrow> Data ioData a ! 1 = 0"
    using assms(1) by (simp only: Data_nth if_True flag_and_small7)
  have b3: "t a \<or> pn a \<Longrightarrow> Data ioData a ! 2 = 0"
    using assms(2) by (auto simp only: Data_nth flags_and_small6 split: if_splits)
  have nz2: "0x80 OR nObjs a \<noteq> 0"
    by (simp add: or_eq_0_iff)
  have nz3: "t a \<or> pn a \<Longrightarrow>
      (if t a then 0x80 else 0) OR (if pn a then 0x40 else 0) OR cot a \<noteq> 0"
    by (auto simp add: or_eq_0_iff)
  show ?thesis using b2 b3 nz2 nz3 by metis
qed

theorem C2_flag_bits_not_packed_witness:
  "unat (nObjs spontSeq) \<le> 127 \<and> unat (cot spontSeq) \<le> 63 \<and> sq spontSeq \<and>
   Data rawData spontSeq ! 1 = 0 \<and> 0x80 OR nObjs spontSeq = 0x81 \<and>
   unat (nObjs spontTest) \<le> 127 \<and> unat (cot spontTest) \<le> 63 \<and>
   (t spontTest \<or> pn spontTest) \<and> Data rawData spontTest ! 2 = 0 \<and>
   0x80 OR cot spontTest = 0x83"
  using C2_flag_bits_not_packed [of spontSeq rawData]
    C2_flag_bits_not_packed [of spontTest rawData]
  by (simp add: spontSeq_def spontTest_def)

subsection \<open>Counts and causes out of range\<close>

text \<open>
  The claim C3, that a cause of transmission above 63 is reported and not encoded, fails
  on an ASDU with the cause 100: \<open>Data\<close> returns ten bytes, the third of them 100, and
  \<open>Parse\<close> reads the cause 36 with \<open>pn\<close> set from them.
\<close>

theorem C3_out_of_range_encoded:
  "Data rawData cause100 = [1, 1, 100, 0, 1, 0, 1, 0, 0, 1] \<and> 63 < unat (cot cause100) \<and>
   Parse skipObjects zeroASDU (Data rawData cause100)
     = ParseOk (zeroASDU\<lparr>typeID := 1, nObjs := 1, pn := True, cot := 36, coa := 1\<rparr>)"
  by (simp add: Data_Cons cause100_def rawData_def Parse_def AsduHeaderLen_def skipObjects_def
      zeroASDU_def parseTypeID_def parseSQ_def parseNOO_def parseT_def parsePN_def
      parseCOT_def parseORG_def parseCOA_def)

text \<open>
  C3, amended. \<open>Data\<close> has no error result and checks no range: for every ASDU it
  returns six header bytes followed by the bytes of the objects, in their order and
  nothing else. The first header byte is \<open>typeID\<close>, the fourth \<open>org\<close>, the fifth and
  sixth the low and the high byte of \<open>coa\<close>; when \<open>sq\<close> is not set the second byte is
  \<open>nObjs\<close> with all its eight bits, and when neither \<open>t\<close> nor \<open>pn\<close> is set the third
  byte is \<open>cot\<close> with all its eight bits.
\<close>

theorem C3_fields_written_unchecked:
  "length (Data ioData a) = 6 + length (concat (map ioData (ios a))) \<and>
   drop 6 (Data ioData a) = concat (map ioData (ios a)) \<and>
   Data ioData a ! 0 = typeID a \<and> Data ioData a ! 3 = org a \<and>
   Data ioData a ! 4 = ucast (coa a) \<and> Data ioData a ! 5 = ucast (drop_bit 8 (coa a)) \<and>
   (\<not> sq a \<longrightarrow> Data ioData a ! 1 = nObjs a) \<and>
   (\<not> t a \<and> \<not> pn a \<longrightarrow> Data ioData a ! 2 = cot a)"
  by (simp only: length_Data Data_nth Data_payload Data_fixed_bytes) simp

theorem C3_fields_written_unchecked_witness:
  "length (Data rawData cause100) = 10 \<and> drop 6 (Data rawData cause100) = [1, 0, 0, 1] \<and>
   Data rawData cause100 ! 0 = 1 \<and> Data rawData cause100 ! 3 = 0 \<and>
   Data rawData cause100 ! 4 = 1 \<and> Data rawData cause100 ! 5 = 0 \<and>
   \<not> sq cause100 \<and> Data rawData cause100 ! 1 = 1 \<and>
   \<not> t cause100 \<and> \<not> pn cause100 \<and> Data rawData cause100 ! 2 = 100"
  using C3_fields_written_unchecked [of rawData cause100]
  by (simp add: cause100_def rawData_def)

subsection \<open>The errors of Parse\<close>




subsection \<open>Header fields of a decoded ASDU\<close>

text \<open>
  C9. Whenever \<open>Parse\<close> returns \<open>nil\<close>, with a helper that keeps the header, the input
  has at least six bytes and the header fields of the receiver are within their widths:
  \<open>nObjs\<close> is the low 7 bits of the second byte \<open>data ! 1\<close>, so at most 127; \<open>cot\<close> is
  the low 6 bits of the third byte \<open>data ! 2\<close>, so at most 63; and \<open>sq\<close>, \<open>t\<close>, \<open>pn\<close> are
  bit 7 of the second byte, bit 7 of the third and bit 6 of the third.
\<close>

theorem C9_decoded_header_fields:
  assumes "Parse pio asdu data = ParseOk a" and "keeps_header pio"
  shows "6 \<le> length data \<and>
         nObjs a = data ! 1 AND 0x7F \<and> unat (nObjs a) \<le> 127 \<and>
         cot a = data ! 2 AND 0x3F \<and> unat (cot a) \<le> 63 \<and>
         sq a = bit (data ! 1) 7 \<and> t a = bit (data ! 2) 7 \<and> pn a = bit (data ! 2) 6"
proof -
  note h = Parse_ok_header [OF assms]
  have "6 \<le> length data" using h(1) by (simp add: AsduHeaderLen_def)
  moreover have "unat (nObjs a) \<le> 127" by (simp only: h(4) low7_le)
  moreover have "unat (cot a) \<le> 63" by (simp only: h(7) low6_le)
  moreover have "sq a = bit (data ! 1) 7" by (simp only: h(3) bit_test)
  moreover have "t a = bit (data ! 2) 7" by (simp only: h(5) bit_test)
  moreover have "pn a = bit (data ! 2) 6" by (simp only: h(6) bit_test)
  ultimately show ?thesis using h(4) h(7) by simp
qed

theorem C9_decoded_header_fields_witness:
  "Parse skipObjects zeroASDU [1, 0x85, 0xC3, 0, 1, 0]
     = ParseOk (zeroASDU\<lparr>typeID := 1, sq := True, nObjs := 5, t := True, pn := True,
         cot := 3, coa := 1\<rparr>) \<and>
   keeps_header skipObjects \<and>
   (5::byte) = 0x85 AND 0x7F \<and> (3::byte) = 0xC3 AND 0x3F \<and>
   bit (0x85::byte) 7 \<and> bit (0xC3::byte) 7 \<and> bit (0xC3::byte) 6"
proof -
  have p: "Parse skipObjects zeroASDU [1, 0x85, 0xC3, 0, 1, 0]
     = ParseOk (zeroASDU\<lparr>typeID := 1, sq := True, nObjs := 5, t := True, pn := True,
         cot := 3, coa := 1\<rparr>)"
    by (simp add: Parse_def AsduHeaderLen_def skipObjects_def
      zeroASDU_def parseTypeID_def parseSQ_def parseNOO_def parseT_def parsePN_def
      parseCOT_def parseORG_def parseCOA_def)
  show ?thesis
    using C9_decoded_header_fields [OF p keeps_header_skipObjects] p
    by (simp add: keeps_header_skipObjects)
qed

section \<open>Properties of the client options\<close>

subsection \<open>The address that is parsed\<close>

lemma Contains_iff_sublist: "Contains s substr \<longleftrightarrow> sublist substr s"
  by (induction s) (simp_all add: sublist_Cons_right)

lemma starts_with_colon: "(length s > 0 \<and> s ! 0 = CHR '':'') \<longleftrightarrow> prefix '':'' s"
  by (cases s) auto

lemma NewClientOption_parse:
  "NewClientOption urlParse s h d =
     (case urlParse (normalized_address s) of
        Inl err \<Rightarrow> Inl err
      | Inr remoteURL \<Rightarrow>
          Inr \<lparr>server = remoteURL, connectTimeout = d,
               autoReconnectRule = Some \<lparr>retries = 1, interval = 3000000000\<rparr>,
               onConnectHandler = Some StartDT, onDisconnectHandler = Some StopDT,
               handler = h, tc = None\<rparr>)"
  unfolding NewClientOption_def normalized_address_def Contains_iff_sublist starts_with_colon
  by (simp add: Let_def DefaultReconnectRetries_def DefaultReconnectInterval_def Second_def
      split: sum.split)

lemma normalized_examples:
  "normalized_address '':2404'' = ''tcp://127.0.0.1:2404''"
  "normalized_address ''10.0.0.7:2404'' = ''tcp://10.0.0.7:2404''"
  "normalized_address ''tls://10.0.0.7:2404'' = ''tls://10.0.0.7:2404''"
  "normalized_address ''a b'' = ''tcp://a b''"
  by (simp_all add: normalized_address_def Let_def sublist_code)

text \<open>
  C7. \<open>NewClientOption\<close> returns an error exactly when the URL parser rejects the
  normalized address, and that error is the parser's; when the parser accepts, the
  option is returned with the parsed URL as its server. Nothing is dialled: the function
  only builds the option.
\<close>

theorem C7_error_iff_unparseable:
  "(\<forall>e. (NewClientOption urlParse s h d :: 'e + ('url, 'f, 'h, 'tls) ClientOption) = Inl e
        \<longleftrightarrow> urlParse (normalized_address s) = Inl e) \<and>
   (\<forall>u. urlParse (normalized_address s) = Inr u \<longrightarrow>
      (\<exists>opt :: ('url, 'f, 'h, 'tls) ClientOption.
         NewClientOption urlParse s h d = Inr opt \<and> server opt = u))"
  by (simp add: NewClientOption_parse split: sum.split)

theorem C7_error_iff_unparseable_witness:
  "NewClientOption sampleParse ''a b'' () (2 * Second)
     = (Inl ''invalid character in host name'' :: string + (string, unit, unit, unit) ClientOption) \<and>
   sampleParse (normalized_address ''a b'') = Inl ''invalid character in host name'' \<and>
   sampleParse (normalized_address '':2404'') = Inr ''tcp://127.0.0.1:2404'' \<and>
   (\<exists>opt :: (string, unit, unit, unit) ClientOption.
      NewClientOption sampleParse '':2404'' () (2 * Second) = Inr opt \<and>
      server opt = ''tcp://127.0.0.1:2404'')"
proof -
  have bad: "sampleParse (normalized_address ''a b'') = Inl ''invalid character in host name''"
    by (simp add: normalized_examples sampleParse_def)
  have good: "sampleParse (normalized_address '':2404'') = Inr ''tcp://127.0.0.1:2404''"
    by (simp add: normalized_examples sampleParse_def)
  show ?thesis
    using C7_error_iff_unparseable
        [where ?'f = unit and ?'tls = unit, of sampleParse "''a b''" "()" "2 * Second"]
      C7_error_iff_unparseable
        [where ?'f = unit and ?'tls = unit, of sampleParse "'':2404''" "()" "2 * Second"]
      bad good
    by simp
qed

subsection \<open>The reconnect rule\<close>

text \<open>
  C6. For every rule given to \<open>SetAutoReconnectRule\<close>, the rule installed has 1 for a
  negative \<open>retries\<close> and three seconds for a negative \<open>interval\<close>, and the given value
  where it is not negative; the call has no way to reject, and it changes no other field
  of the option.
\<close>

theorem C6_reconnect_rule_defaults:
  "SetAutoReconnectRule opt (Some r) =
     opt\<lparr>autoReconnectRule :=
           Some \<lparr>retries = (if retries r < 0 then 1 else retries r),
                 interval = (if interval r < 0 then 3 * Second else interval r)\<rparr>\<rparr>"
  by (simp add: SetAutoReconnectRule_def Let_def DefaultReconnectRetries_def
      DefaultReconnectInterval_def)

theorem C6_reconnect_rule_defaults_witness:
  "SetAutoReconnectRule opt7 (Some \<lparr>retries = - 2, interval = - 7\<rparr>)
     = opt7\<lparr>autoReconnectRule := Some \<lparr>retries = 1, interval = 3000000000\<rparr>\<rparr> \<and>
   SetAutoReconnectRule opt7 (Some \<lparr>retries = 0, interval = 0\<rparr>)
     = opt7\<lparr>autoReconnectRule := Some \<lparr>retries = 0, interval = 0\<rparr>\<rparr> \<and>
   SetAutoReconnectRule opt7 (Some \<lparr>retries = 4, interval = - 1\<rparr>)
     = opt7\<lparr>autoReconnectRule := Some \<lparr>retries = 4, interval = 3000000000\<rparr>\<rparr>"
  using C6_reconnect_rule_defaults [of opt7 "\<lparr>retries = - 2, interval = - 7\<rparr>"]
    C6_reconnect_rule_defaults [of opt7 "\<lparr>retries = 0, interval = 0\<rparr>"]
    C6_reconnect_rule_defaults [of opt7 "\<lparr>retries = 4, interval = - 1\<rparr>"]
  by (simp add: Second_def)

subsection \<open>The connect timeout\<close>

text \<open>
  The claim C8, that after \<open>SetConnectTimeout d\<close> with \<open>d \<le> 0\<close> the option holds a
  default timeout, fails: the option built by \<open>NewClientOption\<close> with a timeout of minus
  five seconds still holds minus five seconds after \<open>SetConnectTimeout 0\<close>, and the one
  with seven seconds still holds seven.
\<close>

theorem C8_timeout_left_as_it_was:
  "NewClientOption sampleParse '':2404'' () (- 5 * Second) = Inr optMinus5 \<and>
   connectTimeout (SetConnectTimeout optMinus5 0) = - 5 * Second \<and>
   connectTimeout (SetConnectTimeout opt7 0) = 7 * Second"
  by (simp add: NewClientOption_parse normalized_examples sampleParse_def optMinus5_def
      opt7_def SetConnectTimeout_def Second_def)

text \<open>
  C8, amended. For every \<open>d \<le> 0\<close>, \<open>SetConnectTimeout d\<close> leaves the option as it
  was, with the connect timeout it held before, whatever that was; for every \<open>d > 0\<close> it
  sets the connect timeout to \<open>d\<close> and changes nothing else.
\<close>

theorem C8_connect_timeout:
  "(d \<le> 0 \<longrightarrow> SetConnectTimeout opt d = opt) \<and>
   (0 < d \<longrightarrow> SetConnectTimeout opt d = opt\<lparr>connectTimeout := d\<rparr>)"
  by (simp add: SetConnectTimeout_def)

theorem C8_connect_timeout_witness:
  "(0::int) \<le> 0 \<and> SetConnectTimeout optMinus5 0 = optMinus5 \<and>
   0 < 2 * Second \<and> SetConnectTimeout optMinus5 (2 * Second) = optMinus5\<lparr>connectTimeout := 2 * Second\<rparr>"
  using C8_connect_timeout [of 0 optMinus5] C8_connect_timeout [of "2 * Second" optMinus5]
  by (simp add: Second_def)

subsection \<open>Setters called with nil\<close>

text \<open>
  C10. \<open>SetAutoReconnectRule\<close>, \<open>SetOnConnectHandler\<close> and \<open>SetOnDisconnectHandler\<close>
  called with \<open>nil\<close> return the option with every field as it was.
\<close>

theorem C10_nil_leaves_option:
  "SetAutoReconnectRule opt None = opt \<and> SetOnConnectHandler opt None = opt \<and>
   SetOnDisconnectHandler opt None = opt"
  by (simp add: SetAutoReconnectRule_def SetOnConnectHandler_def SetOnDisconnectHandler_def)

section \<open>Properties of the accept loop\<close>

lemma acceptLoop_first_error:
  "acceptLoop (map (\<lambda>c. (Some c, None)) cs @ (None, Some e) # rest) evs
     = ServePanic (evs @ map (\<lambda>c. Go_serve (Some c)) cs)"
  by (induction cs arbitrary: evs) simp_all

text \<open>
  C5. The claim: when \<open>Accept\<close> returns an error, the loop logs it and goes on to the
  next \<open>Accept\<close>, without stopping or panicking. The code does not do this: the log line
  calls \<open>RemoteAddr\<close> on the connection that \<open>Accept\<close> returned with the error, which is
  \<open>nil\<close>. After any number of accepted connections, the first \<open>Accept\<close> that returns
  \<open>nil\<close> and an error ends \<open>Serve\<close> in a panic; no line is logged and no later result of
  \<open>Accept\<close> is taken.
\<close>

theorem C5_accept_error_panics:
  "Serve None (map (\<lambda>c. (Some c, None)) cs @ (None, Some e) # rest)
     = ServePanic (map (\<lambda>c. Go_serve (Some c)) cs)"
  by (simp add: Serve_def acceptLoop_first_error)

end
